theory Spec2Isabelle
  imports Main
begin

section \<open>Data model\<close>

text \<open>
  The order controller, \<^verbatim>\<open>src/controllers/order.controller.ts\<close>, has six functions:
  \<^verbatim>\<open>createOrder\<close>, \<^verbatim>\<open>getAllOrders\<close>, \<^verbatim>\<open>getOrderByUuid\<close>,
  \<^verbatim>\<open>getOrderStatus\<close>, \<^verbatim>\<open>executeOrder\<close> and \<^verbatim>\<open>updateOrderStatus\<close>. Each is
  a definition of the same name below.
\<close>

text \<open>
  Modelled from the spec: the models (\<^verbatim>\<open>../models/*\<close>), the error enum
  (\<^verbatim>\<open>../errors/httpErrors\<close>) and the request interfaces
  (\<^verbatim>\<open>../util/parametersInterface\<close>) are imported by the controller and are not part of
  it. Their members and fields are the ones the controller names; an entity of section 3
  of the specification is a record, a table is the list of its rows. Fields keep the names
  of the source, with a short prefix where two models share one (\<^verbatim>\<open>id\<close>,
  \<^verbatim>\<open>name\<close>, \<^verbatim>\<open>quantity\<close>, \<^verbatim>\<open>orderUuid\<close>). A quantity is a JavaScript
  \<^verbatim>\<open>number\<close>; the specification calls it a quantity of items and the model takes it
  to be an integer, which a \<^verbatim>\<open>number\<close> adds and compares exactly.
\<close>

datatype OrderStatus = CREATED | RUNNING | COMPLETED | FAILED

datatype ErrorEnum =
    INTERNAL_SERVER_ERROR
  | PARAM_NOT_VALID
  | QUANTITIES_DO_NOT_MATCH
  | ORDER_NOT_FOUND
  | ORDER_ALREADY_STARTED
  | WS_NOT_AVAILABLE

datatype MessageType = EXECUTE_ORDER

record User =
  user_id :: int

record Food =
  food_id :: int
  food_name :: string

record Place =
  place_id :: int
  place_name :: string

record Order =
  uuid :: string
  status :: OrderStatus
  userId :: int

record OrderDetail =
  od_orderUuid :: string
  od_quantity :: int
  foodId :: int
  od_withdrawal_order :: int

record OrderPlace =
  op_orderUuid :: string
  placeId :: int
  op_quantity_to_deliver :: int

text \<open>The items of a creation request (\<^verbatim>\<open>req.body.foods\<close>, \<^verbatim>\<open>req.body.places\<close>).\<close>

record OrderDetailCreateModel =
  name :: string
  quantity :: int
  withdrawal_order :: int

record OrderPlaceCreateModel =
  pname :: string
  quantity_to_deliver :: int

record request =
  req_user_id :: int
  body_places :: "OrderPlaceCreateModel list"
  body_foods :: "OrderDetailCreateModel list"

record db =
  users :: "User list"
  foods :: "Food list"
  places :: "Place list"
  orders :: "Order list"
  order_details :: "OrderDetail list"
  order_places :: "OrderPlace list"

section \<open>Exceptions and the storage calls\<close>

text \<open>
  Every \<^verbatim>\<open>await\<close> on a model can throw. Which call throws is not decided by the
  controller, so it is an input of the model: \<open>faults\<close> says, for each call site, whether
  the call throws and what. The loops number their calls by the index of the item.
  \<open>TypeError\<close> is what JavaScript throws on a property read of \<^verbatim>\<open>null\<close>;
  \<open>UniqueConstraintError\<close> is the insertion of a second row under a primary key.
\<close>

datatype exn = TypeError | UniqueConstraintError | StorageError string

datatype call =
    CallUserFindByPk
  | CallOrderCreate
  | CallFoodFindOne nat
  | CallOrderDetailCreate nat
  | CallPlaceFindOne nat
  | CallOrderPlaceCreate nat
  | CallOrderFindAll
  | CallOrderFindOne
  | CallOrderFindByPk
  | CallOrderUpdate

type_synonym faults = "call \<Rightarrow> exn option"

definition no_faults :: faults where
  "no_faults = (\<lambda>c. None)"

text \<open>
  Modelled from the spec: \<^verbatim>\<open>sequelize\<close> (\<^verbatim>\<open>../util/db\<close>) is not part of the
  controller. Section 4.4 of the specification describes its transaction as an atomic unit
  of work: the writes are staged inside it, one commit makes them all visible together,
  one rollback discards them all. So a transaction is the rows other readers see and the
  rows with the writes staged so far. Opening, committing and rolling back are taken not
  to throw themselves.
\<close>

record transaction =
  committed :: db
  staged :: db

definition sequelize_transaction :: "db \<Rightarrow> transaction" where
  "sequelize_transaction d = \<lparr>committed = d, staged = d\<rparr>"

definition commit :: "transaction \<Rightarrow> db" where
  "commit t = staged t"

definition rollback :: "transaction \<Rightarrow> db" where
  "rollback t = committed t"

text \<open>
  Modelled from the spec: the lookups of the models, the catalog lookup of section 4.1. A
  lookup gives the first row that matches, or \<^verbatim>\<open>null\<close> (\<open>None\<close>) when there is
  none. None of the lookups is given the transaction in the source: they read the
  committed rows.
\<close>

definition User_findByPk :: "faults \<Rightarrow> db \<Rightarrow> int \<Rightarrow> exn + User option" where
  "User_findByPk fl d i =
     (case fl CallUserFindByPk of
        Some e \<Rightarrow> Inl e
      | None \<Rightarrow> Inr (find (\<lambda>u. user_id u = i) (users d)))"

definition Food_findOne :: "faults \<Rightarrow> nat \<Rightarrow> db \<Rightarrow> string \<Rightarrow> exn + Food option" where
  "Food_findOne fl i d n =
     (case fl (CallFoodFindOne i) of
        Some e \<Rightarrow> Inl e
      | None \<Rightarrow> Inr (find (\<lambda>f. food_name f = n) (foods d)))"

definition Place_findOne :: "faults \<Rightarrow> nat \<Rightarrow> db \<Rightarrow> string \<Rightarrow> exn + Place option" where
  "Place_findOne fl i d n =
     (case fl (CallPlaceFindOne i) of
        Some e \<Rightarrow> Inl e
      | None \<Rightarrow> Inr (find (\<lambda>p. place_name p = n) (places d)))"

text \<open>
  Modelled from the spec: the writes of the models, each given the transaction in the
  source, so each adds its row to the staged rows. \<^verbatim>\<open>uuid\<close> is the primary key of
  an order (\<^verbatim>\<open>Order.findByPk(uuid)\<close>) and the controller does not choose it: the
  value drawn is an input of the model, and a value already in use is refused by the
  primary key.
\<close>

definition Order_create ::
  "faults \<Rightarrow> string \<Rightarrow> OrderStatus \<Rightarrow> int \<Rightarrow> transaction \<Rightarrow> exn + (Order \<times> transaction)" where
  "Order_create fl new_uuid st uid t =
     (case fl CallOrderCreate of
        Some e \<Rightarrow> Inl e
      | None \<Rightarrow>
          if find (\<lambda>x. uuid x = new_uuid) (orders (staged t)) \<noteq> None
          then Inl UniqueConstraintError
          else (let order = \<lparr>uuid = new_uuid, status = st, userId = uid\<rparr>
                in Inr (order,
                        t\<lparr>staged := (staged t)\<lparr>orders := orders (staged t) @ [order]\<rparr>\<rparr>)))"

definition OrderDetail_create ::
  "faults \<Rightarrow> nat \<Rightarrow> OrderDetail \<Rightarrow> transaction \<Rightarrow> exn + transaction" where
  "OrderDetail_create fl i row t =
     (case fl (CallOrderDetailCreate i) of
        Some e \<Rightarrow> Inl e
      | None \<Rightarrow>
          Inr (t\<lparr>staged := (staged t)\<lparr>order_details := order_details (staged t) @ [row]\<rparr>\<rparr>))"

definition OrderPlace_create ::
  "faults \<Rightarrow> nat \<Rightarrow> OrderPlace \<Rightarrow> transaction \<Rightarrow> exn + transaction" where
  "OrderPlace_create fl i row t =
     (case fl (CallOrderPlaceCreate i) of
        Some e \<Rightarrow> Inl e
      | None \<Rightarrow>
          Inr (t\<lparr>staged := (staged t)\<lparr>order_places := order_places (staged t) @ [row]\<rparr>\<rparr>))"

section \<open>What a handler does: transaction calls, \<^verbatim>\<open>next\<close>, the response\<close>

datatype failure = Err ErrorEnum | Thrown exn

text \<open>
  Modelled from the spec: an order with its included rows, the "order plus resolved food
  and place detail" of section 6, as \<^verbatim>\<open>include: [{model: Food}, {model: Place}]\<close>
  loads it: the foods and places joined through the order's detail and place rows.
\<close>

type_synonym OrderJSON = "Order \<times> (Food \<times> OrderDetail) list \<times> (Place \<times> OrderPlace) list"

datatype json =
    Message string
  | StatusLabel string
  | OrderBody OrderJSON
  | OrdersBody "OrderJSON list"

datatype event = Rollback | Commit | Next failure | Respond nat json

text \<open>
  How a block of the handler ends: it runs to its end, it returns early (with the calls
  it made and the rows left), or it throws with the transaction as it stands.
\<close>

datatype 'a flow = Normal 'a | Return "event list \<times> db" | Throw exn transaction

section \<open>createOrder\<close>

text \<open>The loop over \<^verbatim>\<open>foods\<close> (lines 41 to 54), with \<^verbatim>\<open>sumWithdrawal\<close>.\<close>

fun foods_loop ::
  "faults \<Rightarrow> db \<Rightarrow> Order \<Rightarrow> nat \<Rightarrow> OrderDetailCreateModel list \<Rightarrow> transaction \<Rightarrow> int
     \<Rightarrow> (transaction \<times> int) flow" where
  "foods_loop fl d order i [] t sumWithdrawal = Normal (t, sumWithdrawal)"
| "foods_loop fl d order i (food # rest) t sumWithdrawal =
     (case Food_findOne fl i d (name food) of
        Inl e \<Rightarrow> Throw e t
      | Inr None \<Rightarrow> Return ([Rollback, Next (Err PARAM_NOT_VALID)], rollback t)
      | Inr (Some f) \<Rightarrow>
          (case OrderDetail_create fl i
                  \<lparr>od_orderUuid = uuid order, od_quantity = quantity food,
                   foodId = food_id f, od_withdrawal_order = withdrawal_order food\<rparr> t of
             Inl e \<Rightarrow> Throw e t
           | Inr t' \<Rightarrow> foods_loop fl d order (Suc i) rest t' (sumWithdrawal + quantity food)))"

text \<open>The loop over \<^verbatim>\<open>places\<close> (lines 56 to 68), with \<^verbatim>\<open>sumDeliver\<close>.\<close>

fun places_loop ::
  "faults \<Rightarrow> db \<Rightarrow> Order \<Rightarrow> nat \<Rightarrow> OrderPlaceCreateModel list \<Rightarrow> transaction \<Rightarrow> int
     \<Rightarrow> (transaction \<times> int) flow" where
  "places_loop fl d order i [] t sumDeliver = Normal (t, sumDeliver)"
| "places_loop fl d order i (place # rest) t sumDeliver =
     (case Place_findOne fl i d (pname place) of
        Inl e \<Rightarrow> Throw e t
      | Inr None \<Rightarrow> Return ([Rollback, Next (Err PARAM_NOT_VALID)], rollback t)
      | Inr (Some p) \<Rightarrow>
          (case OrderPlace_create fl i
                  \<lparr>op_orderUuid = uuid order, placeId = place_id p,
                   op_quantity_to_deliver = quantity_to_deliver place\<rparr> t of
             Inl e \<Rightarrow> Throw e t
           | Inr t' \<Rightarrow>
               places_loop fl d order (Suc i) rest t' (sumDeliver + quantity_to_deliver place)))"

text \<open>The body of the \<^verbatim>\<open>try\<close> (lines 25 to 76).\<close>

definition createOrder_try ::
  "faults \<Rightarrow> string \<Rightarrow> db \<Rightarrow> request \<Rightarrow> transaction \<Rightarrow> (event list \<times> db) flow" where
  "createOrder_try fl new_uuid d req t =
     (case User_findByPk fl d (req_user_id req) of
        Inl e \<Rightarrow> Throw e t
      | Inr None \<Rightarrow> Return ([Rollback, Next (Err INTERNAL_SERVER_ERROR)], rollback t)
      | Inr (Some user) \<Rightarrow>
          (case Order_create fl new_uuid CREATED (user_id user) t of
             Inl e \<Rightarrow> Throw e t
           | Inr (order, t1) \<Rightarrow>
               (case foods_loop fl d order 0 (body_foods req) t1 0 of
                  Throw e t' \<Rightarrow> Throw e t'
                | Return r \<Rightarrow> Return r
                | Normal (t2, sumWithdrawal) \<Rightarrow>
                    (case places_loop fl d order 0 (body_places req) t2 0 of
                       Throw e t' \<Rightarrow> Throw e t'
                     | Return r \<Rightarrow> Return r
                     | Normal (t3, sumDeliver) \<Rightarrow>
                         if sumDeliver \<noteq> sumWithdrawal
                         then Return ([Rollback, Next (Err QUANTITIES_DO_NOT_MATCH)], rollback t3)
                         else Normal ([Commit, Respond 201 (Message ''Order created'')],
                                      commit t3)))))"

text \<open>
  The handler: it opens the transaction, runs the body, and its \<^verbatim>\<open>catch\<close> rolls
  back and hands the exception to \<^verbatim>\<open>next\<close>. The result is the calls made, in order,
  and the rows of the storage afterwards.
\<close>

definition createOrder :: "faults \<Rightarrow> string \<Rightarrow> db \<Rightarrow> request \<Rightarrow> event list \<times> db" where
  "createOrder fl new_uuid d req =
     (let transaction = sequelize_transaction d
      in case createOrder_try fl new_uuid d req transaction of
           Normal r \<Rightarrow> r
         | Return r \<Rightarrow> r
         | Throw error t \<Rightarrow> ([Rollback, Next (Thrown error)], rollback t))"

section \<open>The read handlers\<close>

definition include_foods :: "db \<Rightarrow> Order \<Rightarrow> (Food \<times> OrderDetail) list" where
  "include_foods d order =
     concat (map (\<lambda>od. map (\<lambda>f. (f, od)) (filter (\<lambda>f. food_id f = foodId od) (foods d)))
                 (filter (\<lambda>od. od_orderUuid od = uuid order) (order_details d)))"

definition include_places :: "db \<Rightarrow> Order \<Rightarrow> (Place \<times> OrderPlace) list" where
  "include_places d order =
     concat (map (\<lambda>op. map (\<lambda>p. (p, op)) (filter (\<lambda>p. place_id p = placeId op) (places d)))
                 (filter (\<lambda>op. op_orderUuid op = uuid order) (order_places d)))"

definition with_includes :: "db \<Rightarrow> Order \<Rightarrow> OrderJSON" where
  "with_includes d order = (order, include_foods d order, include_places d order)"


definition Order_findOne :: "faults \<Rightarrow> db \<Rightarrow> string \<Rightarrow> exn + Order option" where
  "Order_findOne fl d u =
     (case fl CallOrderFindOne of
        Some e \<Rightarrow> Inl e
      | None \<Rightarrow> Inr (find (\<lambda>x. uuid x = u) (orders d)))"

definition Order_findByPk :: "faults \<Rightarrow> db \<Rightarrow> string \<Rightarrow> exn + Order option" where
  "Order_findByPk fl d u =
     (case fl CallOrderFindByPk of
        Some e \<Rightarrow> Inl e
      | None \<Rightarrow> Inr (find (\<lambda>x. uuid x = u) (orders d)))"



definition getOrderStatus :: "faults \<Rightarrow> db \<Rightarrow> string \<Rightarrow> event \<times> db" where
  "getOrderStatus fl d u =
     (case Order_findOne fl d u of
        Inl error \<Rightarrow> (Next (Thrown error), d)
      | Inr None \<Rightarrow> (Next (Err ORDER_NOT_FOUND), d)
      | Inr (Some order) \<Rightarrow>
          (let status = (case status order of
                           CREATED \<Rightarrow> ''Created''
                         | FAILED \<Rightarrow> ''Failed''
                         | RUNNING \<Rightarrow> ''Running''
                         | COMPLETED \<Rightarrow> ''Completed'')
           in (Respond 200 (StatusLabel status), d)))"

section \<open>executeOrder and updateOrderStatus\<close>

text \<open>
  Modelled from the spec: \<^verbatim>\<open>executedOrderStream$\<close> and the message factory
  (\<^verbatim>\<open>../websockets/*\<close>) are not part of the controller. The stream is the
  notification channel of section 6: whether it has a subscriber (\<^verbatim>\<open>observed\<close>), and
  what has been sent on it. The message factory is a parameter: \<open>getMessage\<close> stands
  for \<^verbatim>\<open>messageFactory.getMessage\<close>, whatever it builds from its three arguments.
  Building a message and sending it are taken to return.
\<close>

record 'm subject =
  observed :: bool
  emitted :: "'m list"

definition subject_next :: "'m subject \<Rightarrow> 'm \<Rightarrow> 'm subject" where
  "subject_next s m = s\<lparr>emitted := emitted s @ [m]\<rparr>"

definition executeOrder ::
  "faults \<Rightarrow> (MessageType \<Rightarrow> string \<Rightarrow> OrderJSON \<Rightarrow> 'm) \<Rightarrow> 'm subject \<Rightarrow> db \<Rightarrow> string
     \<Rightarrow> event \<times> 'm subject \<times> db" where
  "executeOrder fl getMessage executedOrderStream d u =
     (case Order_findByPk fl d u of
        Inl error \<Rightarrow> (Next (Thrown error), executedOrderStream, d)
      | Inr None \<Rightarrow> (Next (Err ORDER_NOT_FOUND), executedOrderStream, d)
      | Inr (Some order) \<Rightarrow>
          if status order \<noteq> CREATED
          then (Next (Err ORDER_ALREADY_STARTED), executedOrderStream, d)
          else if \<not> observed executedOrderStream
          then (Next (Err WS_NOT_AVAILABLE), executedOrderStream, d)
          else (Respond 200 (Message ''Order started succesfully''),
                subject_next executedOrderStream
                  (getMessage EXECUTE_ORDER (uuid order) (with_includes d order)),
                d))"

text \<open>
  \<^verbatim>\<open>order!.update({status})\<close> writes the status of the row under that primary key.
  The function has no \<^verbatim>\<open>try\<close>: an exception rejects its promise, which is the
  \<open>Inl\<close> result; \<open>Inr\<close> is the storage after the function returned.
\<close>

definition Order_update :: "faults \<Rightarrow> db \<Rightarrow> Order \<Rightarrow> OrderStatus \<Rightarrow> exn + db" where
  "Order_update fl d order st =
     (case fl CallOrderUpdate of
        Some e \<Rightarrow> Inl e
      | None \<Rightarrow>
          Inr (d\<lparr>orders := map (\<lambda>x. if uuid x = uuid order then x\<lparr>status := st\<rparr> else x)
                               (orders d)\<rparr>))"

definition updateOrderStatus :: "faults \<Rightarrow> db \<Rightarrow> string \<Rightarrow> OrderStatus \<Rightarrow> exn + db" where
  "updateOrderStatus fl d u st =
     (case Order_findByPk fl d u of
        Inl e \<Rightarrow> Inl e
      | Inr None \<Rightarrow> Inl TypeError
      | Inr (Some order) \<Rightarrow> Order_update fl d order st)"

section \<open>Sequences of operations\<close>

text \<open>
  The operations of the system, and the storage after each. \<open>UpdateOrderStatus\<close> is
  the call of the external executor; a call that throws leaves the storage as it was.
\<close>

datatype 'm op =
    CreateOrder faults string request
  | GetAllOrders faults
  | GetOrderByUuid faults string
  | GetOrderStatus faults string
  | ExecuteOrder faults "'m subject" string
  | UpdateOrderStatus faults string OrderStatus



text \<open>The lifecycle of the specification: one step forward, and any number of them.\<close>

fun forward :: "OrderStatus \<Rightarrow> OrderStatus \<Rightarrow> bool" where
  "forward CREATED RUNNING = True"
| "forward RUNNING COMPLETED = True"
| "forward RUNNING FAILED = True"
| "forward a b = False"

definition advanced :: "OrderStatus \<Rightarrow> OrderStatus \<Rightarrow> bool" where
  "advanced a b = (a = b \<or> forward a b \<or> (a = CREATED \<and> (b = COMPLETED \<or> b = FAILED)))"

definition status_of :: "db \<Rightarrow> string \<Rightarrow> OrderStatus option" where
  "status_of d u = map_option status (find (\<lambda>x. uuid x = u) (orders d))"




section \<open>The rows a request asks for\<close>

text \<open>
  \<open>detail_of d u food row\<close>: \<open>row\<close> is the detail row of order \<open>u\<close> for the request item
  \<open>food\<close>, with the identifier of the catalog entry the name resolves to. \<open>place_of\<close> is
  the same for a place item.
\<close>

definition detail_of :: "db \<Rightarrow> string \<Rightarrow> OrderDetailCreateModel \<Rightarrow> OrderDetail \<Rightarrow> bool" where
  "detail_of d u food row =
     (case find (\<lambda>f. food_name f = name food) (foods d) of
        None \<Rightarrow> False
      | Some f \<Rightarrow> row = \<lparr>od_orderUuid = u, od_quantity = quantity food, foodId = food_id f,
                         od_withdrawal_order = withdrawal_order food\<rparr>)"


section \<open>A small store for worked examples\<close>

text \<open>
  One user, two foods, one place, and three orders at different points of their life.
  \<open>make_request\<close> builds a creation request from pairs of a name and a quantity;
  \<open>fault_at c e\<close> is the storage where exactly the call \<open>c\<close> throws \<open>e\<close>.
\<close>

definition example_db :: db where
  "example_db =
     \<lparr>users = [\<lparr>user_id = 1\<rparr>],
      foods = [\<lparr>food_id = 10, food_name = ''bread''\<rparr>, \<lparr>food_id = 11, food_name = ''milk''\<rparr>],
      places = [\<lparr>place_id = 20, place_name = ''table1''\<rparr>],
      orders = [\<lparr>uuid = ''a1'', status = COMPLETED, userId = 1\<rparr>,
                \<lparr>uuid = ''b2'', status = RUNNING, userId = 1\<rparr>,
                \<lparr>uuid = ''c3'', status = CREATED, userId = 1\<rparr>],
      order_details =
        [\<lparr>od_orderUuid = ''a1'', od_quantity = 4, foodId = 10, od_withdrawal_order = 0\<rparr>],
      order_places = [\<lparr>op_orderUuid = ''a1'', placeId = 20, op_quantity_to_deliver = 4\<rparr>]\<rparr>"

definition make_request ::
  "int \<Rightarrow> (string \<times> int) list \<Rightarrow> (string \<times> int) list \<Rightarrow> request" where
  "make_request uid fs ps =
     \<lparr>req_user_id = uid,
      body_places = map (\<lambda>(n, q). \<lparr>pname = n, quantity_to_deliver = q\<rparr>) ps,
      body_foods = map (\<lambda>(n, q). \<lparr>name = n, quantity = q, withdrawal_order = 0\<rparr>) fs\<rparr>"

definition fault_at :: "call \<Rightarrow> exn \<Rightarrow> faults" where
  "fault_at c e = (\<lambda>x. if x = c then Some e else None)"

definition example_getMessage ::
  "MessageType \<Rightarrow> string \<Rightarrow> OrderJSON \<Rightarrow> MessageType \<times> string \<times> OrderJSON" where
  "example_getMessage k u j = (k, u, j)"

lemmas example_defs = example_db_def make_request_def fault_at_def no_faults_def

lemmas handler_defs = createOrder_def createOrder_try_def User_findByPk_def Order_create_def
  Food_findOne_def OrderDetail_create_def Place_findOne_def OrderPlace_create_def
  sequelize_transaction_def commit_def rollback_def Let_def

section \<open>The storage calls and the two loops\<close>

lemma Food_findOne_no_faults:
  "Food_findOne no_faults i d n = Inr (find (\<lambda>f. food_name f = n) (foods d))"
  by (simp add: Food_findOne_def no_faults_def)

lemma Place_findOne_no_faults:
  "Place_findOne no_faults i d n = Inr (find (\<lambda>p. place_name p = n) (places d))"
  by (simp add: Place_findOne_def no_faults_def)

lemma Food_findOne_Inr:
  "Food_findOne fl i d n = Inr r \<Longrightarrow> r = find (\<lambda>f. food_name f = n) (foods d)"
  by (auto simp: Food_findOne_def split: option.splits)

lemma Place_findOne_Inr:
  "Place_findOne fl i d n = Inr r \<Longrightarrow> r = find (\<lambda>p. place_name p = n) (places d)"
  by (auto simp: Place_findOne_def split: option.splits)

lemma User_findByPk_no_faults:
  "User_findByPk no_faults d i = Inr (find (\<lambda>u. user_id u = i) (users d))"
  by (simp add: User_findByPk_def no_faults_def)

lemma Order_create_no_faults:
  "find (\<lambda>x. uuid x = new_uuid) (orders (staged t)) = None \<Longrightarrow>
   Order_create no_faults new_uuid st uid t =
     Inr (\<lparr>uuid = new_uuid, status = st, userId = uid\<rparr>,
          t\<lparr>staged := (staged t)\<lparr>orders := orders (staged t) @
                                   [\<lparr>uuid = new_uuid, status = st, userId = uid\<rparr>]\<rparr>\<rparr>)"
  by (simp add: Order_create_def no_faults_def Let_def)

lemma Order_create_Inr:
  "Order_create fl new_uuid st uid t = Inr (order, t1) \<Longrightarrow>
     order = \<lparr>uuid = new_uuid, status = st, userId = uid\<rparr>
     \<and> committed t1 = committed t
     \<and> orders (staged t1) = orders (staged t) @ [order]
     \<and> find (\<lambda>x. uuid x = new_uuid) (orders (staged t)) = None"
  by (auto simp: Order_create_def Let_def split: option.splits if_splits)

lemma OrderDetail_create_no_faults:
  "OrderDetail_create no_faults i row t =
     Inr (t\<lparr>staged := (staged t)\<lparr>order_details := order_details (staged t) @ [row]\<rparr>\<rparr>)"
  by (simp add: OrderDetail_create_def no_faults_def)

lemma OrderPlace_create_no_faults:
  "OrderPlace_create no_faults i row t =
     Inr (t\<lparr>staged := (staged t)\<lparr>order_places := order_places (staged t) @ [row]\<rparr>\<rparr>)"
  by (simp add: OrderPlace_create_def no_faults_def)

lemma OrderDetail_create_committed:
  "OrderDetail_create fl i row t = Inr t' \<Longrightarrow>
     committed t' = committed t \<and> orders (staged t') = orders (staged t)"
  by (auto simp: OrderDetail_create_def split: option.splits)

lemma OrderPlace_create_committed:
  "OrderPlace_create fl i row t = Inr t' \<Longrightarrow>
     committed t' = committed t \<and> orders (staged t') = orders (staged t)"
  by (auto simp: OrderPlace_create_def split: option.splits)

text \<open>With every name in the catalog and no call throwing, the loop stages one row per item.\<close>

lemma foods_loop_resolved:
  "\<forall>food \<in> set fs. find (\<lambda>f. food_name f = name food) (foods d) \<noteq> None \<Longrightarrow>
   \<exists>rows. foods_loop no_faults d order i fs t s =
             Normal (t\<lparr>staged := (staged t)\<lparr>order_details := order_details (staged t) @ rows\<rparr>\<rparr>,
                     s + sum_list (map quantity fs))
         \<and> list_all2 (detail_of d (uuid order)) fs rows"
proof (induction fs arbitrary: i t s)
  case Nil
  then show ?case by simp
next
  case (Cons food rest)
  then obtain f where f: "find (\<lambda>f. food_name f = name food) (foods d) = Some f"
    by auto
  define row where "row = \<lparr>od_orderUuid = uuid order, od_quantity = quantity food,
     foodId = food_id f, od_withdrawal_order = withdrawal_order food\<rparr>"
  define t1 where "t1 = t\<lparr>staged := (staged t)\<lparr>order_details := order_details (staged t) @ [row]\<rparr>\<rparr>"
  from Cons.prems have "\<forall>food \<in> set rest. find (\<lambda>f. food_name f = name food) (foods d) \<noteq> None"
    by simp
  from Cons.IH[OF this, of "Suc i" t1 "s + quantity food"]
  obtain rows where rows:
    "foods_loop no_faults d order (Suc i) rest t1 (s + quantity food) =
       Normal (t1\<lparr>staged := (staged t1)\<lparr>order_details := order_details (staged t1) @ rows\<rparr>\<rparr>,
               s + quantity food + sum_list (map quantity rest))"
    "list_all2 (detail_of d (uuid order)) rest rows"
    by blast
  have "foods_loop no_faults d order i (food # rest) t s =
          foods_loop no_faults d order (Suc i) rest t1 (s + quantity food)"
    by (simp add: Food_findOne_no_faults OrderDetail_create_no_faults f row_def t1_def)
  moreover have "detail_of d (uuid order) food row"
    by (simp add: detail_of_def f row_def)
  ultimately show ?case
    using rows by (intro exI[of _ "row # rows"]) (simp add: t1_def add.assoc)
qed


text \<open>With a name that is not in the catalog, the loop rolls back, wherever the item stands.\<close>

lemma foods_loop_unresolved:
  "\<exists>food \<in> set fs. find (\<lambda>f. food_name f = name food) (foods d) = None \<Longrightarrow>
   foods_loop no_faults d order i fs t s =
     Return ([Rollback, Next (Err PARAM_NOT_VALID)], committed t)"
proof (induction fs arbitrary: i t s)
  case Nil
  then show ?case by simp
next
  case (Cons food rest)
  show ?case
  proof (cases "find (\<lambda>f. food_name f = name food) (foods d)")
    case None
    then show ?thesis by (simp add: Food_findOne_no_faults rollback_def)
  next
    case (Some f)
    with Cons.prems have "\<exists>food \<in> set rest. find (\<lambda>f. food_name f = name food) (foods d) = None"
      by auto
    from Cons.IH[OF this] Some show ?thesis
      by (simp add: Food_findOne_no_faults OrderDetail_create_no_faults)
  qed
qed

lemma places_loop_unresolved:
  "\<exists>place \<in> set ps. find (\<lambda>p. place_name p = pname place) (places d) = None \<Longrightarrow>
   places_loop no_faults d order i ps t s =
     Return ([Rollback, Next (Err PARAM_NOT_VALID)], committed t)"
proof (induction ps arbitrary: i t s)
  case Nil
  then show ?case by simp
next
  case (Cons place rest)
  show ?case
  proof (cases "find (\<lambda>p. place_name p = pname place) (places d)")
    case None
    then show ?thesis by (simp add: Place_findOne_no_faults rollback_def)
  next
    case (Some p)
    with Cons.prems have "\<exists>place \<in> set rest. find (\<lambda>p. place_name p = pname place) (places d) = None"
      by auto
    from Cons.IH[OF this] Some show ?thesis
      by (simp add: Place_findOne_no_faults OrderPlace_create_no_faults)
  qed
qed

text \<open>
  Whatever throws: a loop ends in one of three ways, and in each the committed rows are
  those the transaction started from.
\<close>

lemma foods_loop_cases:
  "(\<exists>t'. foods_loop fl d order i fs t s = Normal (t', s + sum_list (map quantity fs))
        \<and> committed t' = committed t \<and> orders (staged t') = orders (staged t)
        \<and> (\<forall>food \<in> set fs. find (\<lambda>f. food_name f = name food) (foods d) \<noteq> None))
   \<or> foods_loop fl d order i fs t s = Return ([Rollback, Next (Err PARAM_NOT_VALID)], committed t)
   \<or> (\<exists>e t'. foods_loop fl d order i fs t s = Throw e t' \<and> committed t' = committed t)"
proof (induction fs arbitrary: i t s)
  case Nil
  then show ?case by simp
next
  case (Cons food rest)
  show ?case
  proof (cases "Food_findOne fl i d (name food)")
    case (Inl e)
    then show ?thesis by simp
  next
    case (Inr r)
    note found = this
    show ?thesis
    proof (cases r)
      case None
      with found show ?thesis by (simp add: rollback_def)
    next
      case (Some f)
      with Food_findOne_Inr[OF found]
      have resolved: "find (\<lambda>f. food_name f = name food) (foods d) \<noteq> None"
        by (metis option.distinct(1))
      show ?thesis
      proof (cases "OrderDetail_create fl i
                  \<lparr>od_orderUuid = uuid order, od_quantity = quantity food,
                   foodId = food_id f, od_withdrawal_order = withdrawal_order food\<rparr> t")
        case (Inl e)
        with found Some show ?thesis by simp
      next
        case (Inr t1)
        note c = OrderDetail_create_committed[OF Inr]
        from Cons.IH[of "Suc i" t1 "s + quantity food"] found Some Inr c resolved
        show ?thesis by (simp add: add.assoc)
      qed
    qed
  qed
qed

lemma places_loop_cases:
  "(\<exists>t'. places_loop fl d order i ps t s = Normal (t', s + sum_list (map quantity_to_deliver ps))
        \<and> committed t' = committed t \<and> orders (staged t') = orders (staged t)
        \<and> (\<forall>place \<in> set ps. find (\<lambda>p. place_name p = pname place) (places d) \<noteq> None))
   \<or> places_loop fl d order i ps t s = Return ([Rollback, Next (Err PARAM_NOT_VALID)], committed t)
   \<or> (\<exists>e t'. places_loop fl d order i ps t s = Throw e t' \<and> committed t' = committed t)"
proof (induction ps arbitrary: i t s)
  case Nil
  then show ?case by simp
next
  case (Cons place rest)
  show ?case
  proof (cases "Place_findOne fl i d (pname place)")
    case (Inl e)
    then show ?thesis by simp
  next
    case (Inr r)
    note found = this
    show ?thesis
    proof (cases r)
      case None
      with found show ?thesis by (simp add: rollback_def)
    next
      case (Some p)
      with Place_findOne_Inr[OF found]
      have resolved: "find (\<lambda>p. place_name p = pname place) (places d) \<noteq> None"
        by (metis option.distinct(1))
      show ?thesis
      proof (cases "OrderPlace_create fl i
                  \<lparr>op_orderUuid = uuid order, placeId = place_id p,
                   op_quantity_to_deliver = quantity_to_deliver place\<rparr> t")
        case (Inl e)
        with found Some show ?thesis by simp
      next
        case (Inr t1)
        note c = OrderPlace_create_committed[OF Inr]
        from Cons.IH[of "Suc i" t1 "s + quantity_to_deliver place"] found Some Inr c resolved
        show ?thesis by (simp add: add.assoc)
      qed
    qed
  qed
qed

section \<open>How createOrder can end\<close>

text \<open>
  The body of the \<^verbatim>\<open>try\<close> ends in one of three ways: it commits, and then an order
  was staged under a new key, every name was in the catalog and the sums agree; it returns
  after a rollback with one of three errors; or it throws, and the committed rows are
  still those of the start.
\<close>

lemma createOrder_try_cases:
  "(\<exists>d' uid. createOrder_try fl new_uuid d req t =
        Normal ([Commit, Respond 201 (Message ''Order created'')], d')
      \<and> find (\<lambda>x. uuid x = new_uuid) (orders (staged t)) = None
      \<and> orders d' =
          orders (staged t) @ [\<lparr>uuid = new_uuid, status = CREATED, userId = uid\<rparr>]
      \<and> (\<forall>food \<in> set (body_foods req). find (\<lambda>f. food_name f = name food) (foods d) \<noteq> None)
      \<and> (\<forall>place \<in> set (body_places req).
            find (\<lambda>p. place_name p = pname place) (places d) \<noteq> None)
      \<and> sum_list (map quantity (body_foods req)) =
          sum_list (map quantity_to_deliver (body_places req)))
   \<or> (\<exists>e. createOrder_try fl new_uuid d req t = Return ([Rollback, Next (Err e)], committed t)
          \<and> (e = INTERNAL_SERVER_ERROR \<or> e = PARAM_NOT_VALID \<or> e = QUANTITIES_DO_NOT_MATCH))
   \<or> (\<exists>e t'. createOrder_try fl new_uuid d req t = Throw e t' \<and> committed t' = committed t)"
proof (cases "User_findByPk fl d (req_user_id req)")
  case (Inl e)
  then show ?thesis by (simp add: createOrder_try_def)
next
  case (Inr r)
  note looked = this
  show ?thesis
  proof (cases r)
    case None
    with looked show ?thesis by (simp add: createOrder_try_def rollback_def)
  next
    case (Some user)
    note user = this
    show ?thesis
    proof (cases "Order_create fl new_uuid CREATED (user_id user) t")
      case (Inl e)
      with looked user show ?thesis by (simp add: createOrder_try_def)
    next
      case (Inr created)
      obtain order t1 where created: "created = (order, t1)" by (cases created)
      note oc = Order_create_Inr[OF Inr[unfolded created]]
      from foods_loop_cases[of fl d order 0 "body_foods req" t1 0]
      consider (normal) t2 where
          "foods_loop fl d order 0 (body_foods req) t1 0 =
             Normal (t2, 0 + sum_list (map quantity (body_foods req)))"
          "committed t2 = committed t1" "orders (staged t2) = orders (staged t1)"
          "\<forall>food \<in> set (body_foods req). find (\<lambda>f. food_name f = name food) (foods d) \<noteq> None"
        | (return) "foods_loop fl d order 0 (body_foods req) t1 0 =
             Return ([Rollback, Next (Err PARAM_NOT_VALID)], committed t1)"
        | (throw) e t' where "foods_loop fl d order 0 (body_foods req) t1 0 = Throw e t'"
             "committed t' = committed t1"
        by blast
      then show ?thesis
      proof cases
        case return
        with looked user Inr created oc show ?thesis by (simp add: createOrder_try_def)
      next
        case throw
        with looked user Inr created oc show ?thesis by (simp add: createOrder_try_def)
      next
        case normal
        from places_loop_cases[of fl d order 0 "body_places req" t2 0]
        consider (pnormal) t3 where
            "places_loop fl d order 0 (body_places req) t2 0 =
               Normal (t3, 0 + sum_list (map quantity_to_deliver (body_places req)))"
            "committed t3 = committed t2" "orders (staged t3) = orders (staged t2)"
            "\<forall>place \<in> set (body_places req).
               find (\<lambda>p. place_name p = pname place) (places d) \<noteq> None"
          | (preturn) "places_loop fl d order 0 (body_places req) t2 0 =
               Return ([Rollback, Next (Err PARAM_NOT_VALID)], committed t2)"
          | (pthrow) e t' where "places_loop fl d order 0 (body_places req) t2 0 = Throw e t'"
               "committed t' = committed t2"
          by blast
        then show ?thesis
        proof cases
          case preturn
          with looked user Inr created oc normal show ?thesis
            by (simp add: createOrder_try_def)
        next
          case pthrow
          with looked user Inr created oc normal show ?thesis
            by (simp add: createOrder_try_def)
        next
          case pnormal
          show ?thesis
          proof (cases "sum_list (map quantity_to_deliver (body_places req)) =
                        sum_list (map quantity (body_foods req))")
            case False
            with looked user Inr created oc normal pnormal show ?thesis
              by (simp add: createOrder_try_def rollback_def)
          next
            case True
            with looked user Inr created oc normal pnormal
            have "createOrder_try fl new_uuid d req t =
                    Normal ([Commit, Respond 201 (Message ''Order created'')], staged t3)"
              by (simp add: createOrder_try_def commit_def)
            moreover have "orders (staged t3) =
                orders (staged t) @ [\<lparr>uuid = new_uuid, status = CREATED, userId = user_id user\<rparr>]"
              using oc normal pnormal by simp
            ultimately show ?thesis
              using oc normal(4) pnormal(4) True
              by - (rule disjI1, rule exI[of _ "staged t3"], rule exI[of _ "user_id user"], simp)
          qed
        qed
      qed
    qed
  qed
qed

lemma createOrder_cases:
  "(\<exists>d' uid. createOrder fl new_uuid d req =
        ([Commit, Respond 201 (Message ''Order created'')], d')
      \<and> find (\<lambda>x. uuid x = new_uuid) (orders d) = None
      \<and> orders d' = orders d @ [\<lparr>uuid = new_uuid, status = CREATED, userId = uid\<rparr>]
      \<and> (\<forall>food \<in> set (body_foods req). find (\<lambda>f. food_name f = name food) (foods d) \<noteq> None)
      \<and> (\<forall>place \<in> set (body_places req).
            find (\<lambda>p. place_name p = pname place) (places d) \<noteq> None)
      \<and> sum_list (map quantity (body_foods req)) =
          sum_list (map quantity_to_deliver (body_places req)))
   \<or> (\<exists>e. createOrder fl new_uuid d req = ([Rollback, Next (Err e)], d)
          \<and> (e = INTERNAL_SERVER_ERROR \<or> e = PARAM_NOT_VALID \<or> e = QUANTITIES_DO_NOT_MATCH))
   \<or> (\<exists>e t'. createOrder_try fl new_uuid d req (sequelize_transaction d) = Throw e t'
          \<and> createOrder fl new_uuid d req = ([Rollback, Next (Thrown e)], d))"
  using createOrder_try_cases[of fl new_uuid d req "sequelize_transaction d"]
  by (auto simp: createOrder_def rollback_def sequelize_transaction_def)

section \<open>Creating an order\<close>






text \<open>
  C3, as the code has it. A request with a food or place name that is not in the catalog,
  at any position of either list, never changes the storage, whatever throws: the order
  and the rows staged before the failing item are dropped. The error is
  \<open>PARAM_NOT_VALID\<close> when the requester exists and the storage works; the requester
  is looked up before any name.
\<close>

theorem createOrder_unresolved_name:
  assumes "(\<exists>food \<in> set (body_foods req). find (\<lambda>f. food_name f = name food) (foods d) = None)
         \<or> (\<exists>place \<in> set (body_places req).
               find (\<lambda>p. place_name p = pname place) (places d) = None)"
  shows "snd (createOrder fl new_uuid d req) = d
       \<and> (find (\<lambda>u. user_id u = req_user_id req) (users d) \<noteq> None
          \<and> find (\<lambda>x. uuid x = new_uuid) (orders d) = None \<longrightarrow>
            createOrder no_faults new_uuid d req = ([Rollback, Next (Err PARAM_NOT_VALID)], d))"
proof (intro conjI impI)
  show "snd (createOrder fl new_uuid d req) = d"
    using createOrder_cases[of fl new_uuid d req] assms by auto
  show "createOrder no_faults new_uuid d req = ([Rollback, Next (Err PARAM_NOT_VALID)], d)"
    if valid: "find (\<lambda>u. user_id u = req_user_id req) (users d) \<noteq> None
          \<and> find (\<lambda>x. uuid x = new_uuid) (orders d) = None"
  proof -
    from valid obtain user where
      user: "find (\<lambda>u. user_id u = req_user_id req) (users d) = Some user"
      by auto
    define order where "order = \<lparr>uuid = new_uuid, status = CREATED, userId = user_id user\<rparr>"
    define t1 where "t1 = \<lparr>committed = d, staged = d\<lparr>orders := orders d @ [order]\<rparr>\<rparr>"
    have created: "Order_create no_faults new_uuid CREATED (user_id user) (sequelize_transaction d) =
        Inr (order, t1)"
      using valid by (simp add: Order_create_no_faults t1_def order_def sequelize_transaction_def)
    show ?thesis
    proof (cases "\<exists>food \<in> set (body_foods req).
                    find (\<lambda>f. food_name f = name food) (foods d) = None")
      case True
      from foods_loop_unresolved[OF True, of order 0 t1 0]
      show ?thesis
        using user created
        by (simp add: createOrder_def createOrder_try_def User_findByPk_no_faults t1_def)
    next
      case False
      then have "\<forall>food \<in> set (body_foods req).
                   find (\<lambda>f. food_name f = name food) (foods d) \<noteq> None"
        by simp
      from foods_loop_resolved[OF this, of order 0 t1 0]
      obtain t2 where t2: "foods_loop no_faults d order 0 (body_foods req) t1 0 =
          Normal (t2, 0 + sum_list (map quantity (body_foods req)))" "committed t2 = d"
        by (auto simp: t1_def)
      from False assms have "\<exists>place \<in> set (body_places req).
               find (\<lambda>p. place_name p = pname place) (places d) = None"
        by blast
      from places_loop_unresolved[OF this, of order 0 t2 0]
      show ?thesis
        using user created t2
        by (simp add: createOrder_def createOrder_try_def User_findByPk_no_faults)
    qed
  qed
qed

theorem createOrder_unresolved_name_witness:
  "(\<exists>food \<in> set (body_foods (make_request 1 [(''ghost'', 1), (''bread'', 1)] [(''table1'', 2)])).
       find (\<lambda>f. food_name f = name food) (foods example_db) = None)
   \<and> createOrder no_faults ''d4'' example_db
        (make_request 1 [(''ghost'', 1), (''bread'', 1)] [(''table1'', 2)]) =
       ([Rollback, Next (Err PARAM_NOT_VALID)], example_db)
   \<and> (\<exists>place \<in> set (body_places (make_request 1 [(''bread'', 1), (''milk'', 1)]
                                     [(''table1'', 1), (''table9'', 1)])).
       find (\<lambda>p. place_name p = pname place) (places example_db) = None)
   \<and> createOrder no_faults ''d4'' example_db
        (make_request 1 [(''bread'', 1), (''milk'', 1)] [(''table1'', 1), (''table9'', 1)]) =
       ([Rollback, Next (Err PARAM_NOT_VALID)], example_db)"
proof -
  have first: "\<exists>food \<in> set (body_foods
                   (make_request 1 [(''ghost'', 1), (''bread'', 1)] [(''table1'', 2)])).
       find (\<lambda>f. food_name f = name food) (foods example_db) = None"
    by (simp add: example_db_def make_request_def)
  have last: "\<exists>place \<in> set (body_places (make_request 1 [(''bread'', 1), (''milk'', 1)]
                                     [(''table1'', 1), (''table9'', 1)])).
       find (\<lambda>p. place_name p = pname place) (places example_db) = None"
    by (simp add: example_db_def make_request_def)
  have fresh: "find (\<lambda>x. uuid x = ''d4'') (orders example_db) = None"
    by (simp add: example_db_def)
  have requester:
    "find (\<lambda>u. user_id u = req_user_id
               (make_request 1 [(''ghost'', 1), (''bread'', 1)] [(''table1'', 2)]))
       (users example_db) \<noteq> None"
    "find (\<lambda>u. user_id u = req_user_id
               (make_request 1 [(''bread'', 1), (''milk'', 1)] [(''table1'', 1), (''table9'', 1)]))
       (users example_db) \<noteq> None"
    by (simp_all add: example_db_def make_request_def)
  from createOrder_unresolved_name[OF disjI1, OF first, of no_faults "''d4''"]
       createOrder_unresolved_name[OF disjI2, OF last, of no_faults "''d4''"]
       first last fresh requester
  show ?thesis by blast
qed

text \<open>
  The claim as it is worded promises \<open>PARAM_NOT_VALID\<close> for every request with an
  unknown name. Here the food name is unknown and so is the requester: the handler fails
  at the requester with \<open>INTERNAL_SERVER_ERROR\<close>.
\<close>

theorem createOrder_unresolved_name_counterexample:
  "(\<exists>food \<in> set (body_foods (make_request 7 [(''ghost'', 1)] [(''table1'', 1)])).
       find (\<lambda>f. food_name f = name food) (foods example_db) = None)
   \<and> createOrder no_faults ''d4'' example_db (make_request 7 [(''ghost'', 1)] [(''table1'', 1)]) =
       ([Rollback, Next (Err INTERNAL_SERVER_ERROR)], example_db)
   \<and> createOrder no_faults ''d4'' example_db (make_request 7 [(''ghost'', 1)] [(''table1'', 1)]) \<noteq>
       ([Rollback, Next (Err PARAM_NOT_VALID)], example_db)"
  by (simp add: example_defs handler_defs)

text \<open>
  C4. However \<open>createOrder\<close> ends, it either commits and answers 201, or it calls
  rollback and only then \<open>next\<close>, and the storage is what it was before the call.
  What \<open>next\<close> receives is one of the three errors of the handler (missing requester,
  unknown name, sums that differ) or the exception that was thrown. A requester that is
  not found gives \<open>INTERNAL_SERVER_ERROR\<close>, a server error. An exception thrown
  anywhere in the body of the \<^verbatim>\<open>try\<close> reaches the \<^verbatim>\<open>catch\<close>, which rolls
  back and passes the exception on. The events are in call order: on the missing requester
  the source calls \<^verbatim>\<open>transaction.rollback()\<close> without awaiting it, and then
  \<^verbatim>\<open>next\<close>.
\<close>

theorem createOrder_failure_rolls_back:
  "((\<exists>d'. createOrder fl new_uuid d req = ([Commit, Respond 201 (Message ''Order created'')], d'))
    \<or> (\<exists>e. createOrder fl new_uuid d req = ([Rollback, Next (Err e)], d)
           \<and> (e = INTERNAL_SERVER_ERROR \<or> e = PARAM_NOT_VALID \<or> e = QUANTITIES_DO_NOT_MATCH))
    \<or> (\<exists>x. createOrder fl new_uuid d req = ([Rollback, Next (Thrown x)], d)))
   \<and> (User_findByPk fl d (req_user_id req) = Inr None \<longrightarrow>
        createOrder fl new_uuid d req = ([Rollback, Next (Err INTERNAL_SERVER_ERROR)], d))
   \<and> (\<forall>e t. createOrder_try fl new_uuid d req (sequelize_transaction d) = Throw e t \<longrightarrow>
        createOrder fl new_uuid d req = ([Rollback, Next (Thrown e)], d))"
proof (intro conjI impI allI)
  show "(\<exists>d'. createOrder fl new_uuid d req = ([Commit, Respond 201 (Message ''Order created'')], d'))
    \<or> (\<exists>e. createOrder fl new_uuid d req = ([Rollback, Next (Err e)], d)
           \<and> (e = INTERNAL_SERVER_ERROR \<or> e = PARAM_NOT_VALID \<or> e = QUANTITIES_DO_NOT_MATCH))
    \<or> (\<exists>x. createOrder fl new_uuid d req = ([Rollback, Next (Thrown x)], d))"
    using createOrder_cases[of fl new_uuid d req] by auto
  show "createOrder fl new_uuid d req = ([Rollback, Next (Err INTERNAL_SERVER_ERROR)], d)"
    if "User_findByPk fl d (req_user_id req) = Inr None"
    using that
    by (simp add: createOrder_def createOrder_try_def rollback_def sequelize_transaction_def)
  show "createOrder fl new_uuid d req = ([Rollback, Next (Thrown e)], d)"
    if "createOrder_try fl new_uuid d req (sequelize_transaction d) = Throw e t" for e t
    using that createOrder_try_cases[of fl new_uuid d req "sequelize_transaction d"]
    by (auto simp: createOrder_def rollback_def sequelize_transaction_def)
qed

theorem createOrder_failure_rolls_back_witness:
  "User_findByPk no_faults example_db (req_user_id (make_request 7 [] [])) = Inr None
   \<and> createOrder no_faults ''d4'' example_db (make_request 7 [] []) =
       ([Rollback, Next (Err INTERNAL_SERVER_ERROR)], example_db)
   \<and> createOrder_try (fault_at (CallOrderPlaceCreate 0) (StorageError ''connection lost''))
        ''d4'' example_db (make_request 1 [(''bread'', 2)] [(''table1'', 2)])
        (sequelize_transaction example_db) =
       Throw (StorageError ''connection lost'')
         \<lparr>committed = example_db,
          staged = example_db
            \<lparr>orders := orders example_db @ [\<lparr>uuid = ''d4'', status = CREATED, userId = 1\<rparr>],
             order_details := order_details example_db @
               [\<lparr>od_orderUuid = ''d4'', od_quantity = 2, foodId = 10, od_withdrawal_order = 0\<rparr>]\<rparr>\<rparr>
   \<and> createOrder (fault_at (CallOrderPlaceCreate 0) (StorageError ''connection lost''))
        ''d4'' example_db (make_request 1 [(''bread'', 2)] [(''table1'', 2)]) =
       ([Rollback, Next (Thrown (StorageError ''connection lost''))], example_db)"
proof -
  have thrown: "createOrder_try (fault_at (CallOrderPlaceCreate 0) (StorageError ''connection lost''))
        ''d4'' example_db (make_request 1 [(''bread'', 2)] [(''table1'', 2)])
        (sequelize_transaction example_db) =
       Throw (StorageError ''connection lost'')
         \<lparr>committed = example_db,
          staged = example_db
            \<lparr>orders := orders example_db @ [\<lparr>uuid = ''d4'', status = CREATED, userId = 1\<rparr>],
             order_details := order_details example_db @
               [\<lparr>od_orderUuid = ''d4'', od_quantity = 2, foodId = 10, od_withdrawal_order = 0\<rparr>]\<rparr>\<rparr>"
    by (simp add: example_defs createOrder_try_def User_findByPk_def Order_create_def
        Food_findOne_def OrderDetail_create_def Place_findOne_def OrderPlace_create_def
        sequelize_transaction_def Let_def)
  have missing: "User_findByPk no_faults example_db (req_user_id (make_request 7 [] [])) = Inr None"
    by (simp add: example_defs User_findByPk_def)
  from createOrder_failure_rolls_back[of no_faults "''d4''" example_db "make_request 7 [] []"]
       createOrder_failure_rolls_back[of
          "fault_at (CallOrderPlaceCreate 0) (StorageError ''connection lost'')" "''d4''" example_db
          "make_request 1 [(''bread'', 2)] [(''table1'', 2)]"]
       thrown missing
  show ?thesis by blast
qed

text \<open>
  C9. A request with an existing requester and no food and no place items succeeds: both
  sums are 0. The storage gains the order, in status \<open>CREATED\<close>, and no detail or
  place row.
\<close>

theorem createOrder_empty_request:
  assumes requester: "find (\<lambda>u. user_id u = req_user_id req) (users d) = Some user"
    and fresh: "find (\<lambda>x. uuid x = new_uuid) (orders d) = None"
    and no_foods: "body_foods req = []"
    and no_places: "body_places req = []"
  shows "createOrder no_faults new_uuid d req =
           ([Commit, Respond 201 (Message ''Order created'')],
            d\<lparr>orders := orders d @ [\<lparr>uuid = new_uuid, status = CREATED, userId = user_id user\<rparr>]\<rparr>)"
  using assms
  by (simp add: createOrder_def createOrder_try_def User_findByPk_no_faults
      Order_create_no_faults sequelize_transaction_def commit_def)

theorem createOrder_empty_request_witness:
  "createOrder no_faults ''d4'' example_db (make_request 1 [] []) =
     ([Commit, Respond 201 (Message ''Order created'')],
      example_db\<lparr>orders := orders example_db @ [\<lparr>uuid = ''d4'', status = CREATED, userId = 1\<rparr>]\<rparr>)
   \<and> order_details (snd (createOrder no_faults ''d4'' example_db (make_request 1 [] []))) =
       order_details example_db
   \<and> order_places (snd (createOrder no_faults ''d4'' example_db (make_request 1 [] []))) =
       order_places example_db"
  using createOrder_empty_request[of "make_request 1 [] []" example_db "\<lparr>user_id = 1\<rparr>" "''d4''"]
  by (simp add: example_defs)

section \<open>Reading, executing and updating\<close>

text \<open>Looking an order up by its uuid, and the handlers that only read.\<close>

lemma find_uuid_Some: "find (\<lambda>x. uuid x = u) xs = Some order \<Longrightarrow> uuid order = u"
  by (induction xs) (auto split: if_splits)

lemma find_app:
  "find P (xs @ ys) = (case find P xs of None \<Rightarrow> find P ys | Some x \<Rightarrow> Some x)"
  by (induction xs) auto

lemma find_update_status:
  "find (\<lambda>x. uuid x = u) (map (\<lambda>x. if uuid x = u' then x\<lparr>status := st\<rparr> else x) xs) =
     map_option (\<lambda>x. if uuid x = u' then x\<lparr>status := st\<rparr> else x) (find (\<lambda>x. uuid x = u) xs)"
  by (induction xs) auto



lemma getOrderStatus_storage: "snd (getOrderStatus fl d u) = d"
  by (simp add: getOrderStatus_def Let_def split: sum.splits option.splits)

lemma executeOrder_storage: "snd (snd (executeOrder fl gm s d u)) = d"
  by (simp add: executeOrder_def split: sum.splits option.splits)

text \<open>
  C8. \<open>getOrderStatus\<close> leaves the storage as it is. When the lookup does not throw,
  an unknown uuid gives \<open>ORDER_NOT_FOUND\<close> and an order gives the label of its status:
  Created, Running, Completed, Failed. Right after a creation that committed, the status
  of the new uuid reads Created.
\<close>

theorem getOrderStatus_label:
  assumes "fl CallOrderFindOne = None"
  shows "snd (getOrderStatus fl d u) = d
       \<and> (find (\<lambda>x. uuid x = u) (orders d) = None \<longrightarrow>
            getOrderStatus fl d u = (Next (Err ORDER_NOT_FOUND), d))
       \<and> (\<forall>order. find (\<lambda>x. uuid x = u) (orders d) = Some order \<longrightarrow>
            (status order = CREATED \<longrightarrow>
               getOrderStatus fl d u = (Respond 200 (StatusLabel ''Created''), d))
          \<and> (status order = RUNNING \<longrightarrow>
               getOrderStatus fl d u = (Respond 200 (StatusLabel ''Running''), d))
          \<and> (status order = COMPLETED \<longrightarrow>
               getOrderStatus fl d u = (Respond 200 (StatusLabel ''Completed''), d))
          \<and> (status order = FAILED \<longrightarrow>
               getOrderStatus fl d u = (Respond 200 (StatusLabel ''Failed''), d)))
       \<and> (fst (createOrder fl' new_uuid d req) = [Commit, Respond 201 (Message ''Order created'')] \<longrightarrow>
            getOrderStatus fl (snd (createOrder fl' new_uuid d req)) new_uuid =
              (Respond 200 (StatusLabel ''Created''), snd (createOrder fl' new_uuid d req)))"
proof (intro conjI impI allI)
  show "snd (getOrderStatus fl d u) = d"
    by (rule getOrderStatus_storage)
  show "getOrderStatus fl d u = (Next (Err ORDER_NOT_FOUND), d)"
    if "find (\<lambda>x. uuid x = u) (orders d) = None"
    using that assms by (simp add: getOrderStatus_def Order_findOne_def)
  show "getOrderStatus fl d u = (Respond 200 (StatusLabel ''Created''), d)"
    if "find (\<lambda>x. uuid x = u) (orders d) = Some order" "status order = CREATED" for order
    using that assms by (simp add: getOrderStatus_def Order_findOne_def)
  show "getOrderStatus fl d u = (Respond 200 (StatusLabel ''Running''), d)"
    if "find (\<lambda>x. uuid x = u) (orders d) = Some order" "status order = RUNNING" for order
    using that assms by (simp add: getOrderStatus_def Order_findOne_def)
  show "getOrderStatus fl d u = (Respond 200 (StatusLabel ''Completed''), d)"
    if "find (\<lambda>x. uuid x = u) (orders d) = Some order" "status order = COMPLETED" for order
    using that assms by (simp add: getOrderStatus_def Order_findOne_def)
  show "getOrderStatus fl d u = (Respond 200 (StatusLabel ''Failed''), d)"
    if "find (\<lambda>x. uuid x = u) (orders d) = Some order" "status order = FAILED" for order
    using that assms by (simp add: getOrderStatus_def Order_findOne_def)
  show "getOrderStatus fl (snd (createOrder fl' new_uuid d req)) new_uuid =
          (Respond 200 (StatusLabel ''Created''), snd (createOrder fl' new_uuid d req))"
    if ok: "fst (createOrder fl' new_uuid d req) = [Commit, Respond 201 (Message ''Order created'')]"
  proof -
    from createOrder_cases[of fl' new_uuid d req] ok
    obtain d' uid where d': "createOrder fl' new_uuid d req =
          ([Commit, Respond 201 (Message ''Order created'')], d')"
        "find (\<lambda>x. uuid x = new_uuid) (orders d) = None"
        "orders d' = orders d @ [\<lparr>uuid = new_uuid, status = CREATED, userId = uid\<rparr>]"
      by auto
    then have "find (\<lambda>x. uuid x = new_uuid) (orders d') =
        Some \<lparr>uuid = new_uuid, status = CREATED, userId = uid\<rparr>"
      by (simp add: find_app)
    with d'(1) assms show ?thesis
      by (simp add: getOrderStatus_def Order_findOne_def)
  qed
qed

theorem getOrderStatus_label_witness:
  "no_faults CallOrderFindOne = None
   \<and> getOrderStatus no_faults example_db ''a1'' =
       (Respond 200 (StatusLabel ''Completed''), example_db)
   \<and> getOrderStatus no_faults example_db ''zz'' = (Next (Err ORDER_NOT_FOUND), example_db)
   \<and> fst (createOrder no_faults ''d4'' example_db
             (make_request 1 [(''bread'', 2)] [(''table1'', 2)])) =
       [Commit, Respond 201 (Message ''Order created'')]
   \<and> getOrderStatus no_faults
        (snd (createOrder no_faults ''d4'' example_db
               (make_request 1 [(''bread'', 2)] [(''table1'', 2)]))) ''d4'' =
       (Respond 200 (StatusLabel ''Created''),
        snd (createOrder no_faults ''d4'' example_db
              (make_request 1 [(''bread'', 2)] [(''table1'', 2)])))"
proof -
  have lookup: "no_faults CallOrderFindOne = None"
    by (simp add: no_faults_def)
  have found: "find (\<lambda>x. uuid x = ''a1'') (orders example_db) =
      Some \<lparr>uuid = ''a1'', status = COMPLETED, userId = 1\<rparr>"
    by (simp add: example_db_def)
  have completed: "status \<lparr>uuid = ''a1'', status = COMPLETED, userId = 1\<rparr> = COMPLETED"
    by simp
  have missing: "find (\<lambda>x. uuid x = ''zz'') (orders example_db) = None"
    by (simp add: example_db_def)
  have created: "fst (createOrder no_faults ''d4'' example_db
             (make_request 1 [(''bread'', 2)] [(''table1'', 2)])) =
       [Commit, Respond 201 (Message ''Order created'')]"
    by (simp add: example_defs handler_defs)
  from getOrderStatus_label[where fl = no_faults and d = example_db and u = "''a1''", OF lookup]
       getOrderStatus_label[where fl = no_faults and d = example_db and u = "''zz''"
          and fl' = no_faults and new_uuid = "''d4''"
          and req = "make_request 1 [(''bread'', 2)] [(''table1'', 2)]", OF lookup]
       lookup found completed missing created
  show ?thesis by blast
qed

text \<open>
  C6. When the lookup does not throw and finds an order whose status is not
  \<open>CREATED\<close>, \<open>executeOrder\<close> calls \<open>next\<close> with \<open>ORDER_ALREADY_STARTED\<close>; the
  stream is as it was, so nothing was sent on it, and so is the storage.
\<close>

theorem executeOrder_already_started:
  assumes "fl CallOrderFindByPk = None"
    and "find (\<lambda>x. uuid x = u) (orders d) = Some order"
    and "status order \<noteq> CREATED"
  shows "executeOrder fl getMessage s d u = (Next (Err ORDER_ALREADY_STARTED), s, d)"
  using assms by (simp add: executeOrder_def Order_findByPk_def)

theorem executeOrder_already_started_witness:
  "no_faults CallOrderFindByPk = None
   \<and> find (\<lambda>x. uuid x = ''b2'') (orders example_db) =
       Some \<lparr>uuid = ''b2'', status = RUNNING, userId = 1\<rparr>
   \<and> status \<lparr>uuid = ''b2'', status = RUNNING, userId = 1\<rparr> \<noteq> CREATED
   \<and> executeOrder no_faults example_getMessage \<lparr>observed = True, emitted = []\<rparr> example_db ''b2'' =
       (Next (Err ORDER_ALREADY_STARTED), \<lparr>observed = True, emitted = []\<rparr>, example_db)"
proof -
  have lookup: "no_faults CallOrderFindByPk = None"
    by (simp add: no_faults_def)
  have found: "find (\<lambda>x. uuid x = ''b2'') (orders example_db) =
      Some \<lparr>uuid = ''b2'', status = RUNNING, userId = 1\<rparr>"
    by (simp add: example_db_def)
  have started: "status \<lparr>uuid = ''b2'', status = RUNNING, userId = 1\<rparr> \<noteq> CREATED"
    by simp
  from executeOrder_already_started[where fl = no_faults and getMessage = example_getMessage
         and s = "\<lparr>observed = True, emitted = []\<rparr>", OF lookup found started]
       lookup found started
  show ?thesis by blast
qed

text \<open>
  C7, as the code has it. \<open>executeOrder\<close> never changes the storage, so it changes no
  status. For an order that exists and is in status \<open>CREATED\<close> (the lookup not
  throwing): with no subscriber on the stream it calls \<open>next\<close> with
  \<open>WS_NOT_AVAILABLE\<close> and sends nothing; with a subscriber it sends exactly one
  message, built from \<open>EXECUTE_ORDER\<close>, the uuid and the order with its foods and
  places, answers 200, and the order is still \<open>CREATED\<close>. The channel is the third
  check of the handler: an unknown uuid and a started order are reported first.
\<close>

theorem executeOrder_frame:
  "snd (snd (executeOrder fl getMessage s d u)) = d
   \<and> (fl CallOrderFindByPk = None \<and> find (\<lambda>x. uuid x = u) (orders d) = Some order
        \<and> status order = CREATED \<and> \<not> observed s \<longrightarrow>
        executeOrder fl getMessage s d u = (Next (Err WS_NOT_AVAILABLE), s, d))
   \<and> (fl CallOrderFindByPk = None \<and> find (\<lambda>x. uuid x = u) (orders d) = Some order
        \<and> status order = CREATED \<and> observed s \<longrightarrow>
        executeOrder fl getMessage s d u =
          (Respond 200 (Message ''Order started succesfully''),
           s\<lparr>emitted := emitted s @ [getMessage EXECUTE_ORDER u (with_includes d order)]\<rparr>,
           d)
        \<and> status_of (snd (snd (executeOrder fl getMessage s d u))) u = Some CREATED)"
proof (intro conjI impI)
  show "snd (snd (executeOrder fl getMessage s d u)) = d"
    by (rule executeOrder_storage)
  show "executeOrder fl getMessage s d u = (Next (Err WS_NOT_AVAILABLE), s, d)"
    if "fl CallOrderFindByPk = None \<and> find (\<lambda>x. uuid x = u) (orders d) = Some order
        \<and> status order = CREATED \<and> \<not> observed s"
    using that by (simp add: executeOrder_def Order_findByPk_def)
  assume ok: "fl CallOrderFindByPk = None \<and> find (\<lambda>x. uuid x = u) (orders d) = Some order
        \<and> status order = CREATED \<and> observed s"
  then have "uuid order = u"
    using find_uuid_Some by blast
  with ok show "executeOrder fl getMessage s d u =
          (Respond 200 (Message ''Order started succesfully''),
           s\<lparr>emitted := emitted s @ [getMessage EXECUTE_ORDER u (with_includes d order)]\<rparr>,
           d)"
    by (simp add: executeOrder_def Order_findByPk_def subject_next_def)
  from ok show "status_of (snd (snd (executeOrder fl getMessage s d u))) u = Some CREATED"
    by (simp add: executeOrder_storage status_of_def)
qed

theorem executeOrder_frame_witness:
  "no_faults CallOrderFindByPk = None
   \<and> find (\<lambda>x. uuid x = ''c3'') (orders example_db) =
       Some \<lparr>uuid = ''c3'', status = CREATED, userId = 1\<rparr>
   \<and> executeOrder no_faults example_getMessage \<lparr>observed = False, emitted = []\<rparr> example_db ''c3'' =
       (Next (Err WS_NOT_AVAILABLE), \<lparr>observed = False, emitted = []\<rparr>, example_db)
   \<and> executeOrder no_faults example_getMessage \<lparr>observed = True, emitted = []\<rparr> example_db ''c3'' =
       (Respond 200 (Message ''Order started succesfully''),
        \<lparr>observed = True,
         emitted = [(EXECUTE_ORDER, ''c3'',
                     (\<lparr>uuid = ''c3'', status = CREATED, userId = 1\<rparr>, [], []))]\<rparr>,
        example_db)
   \<and> status_of (snd (snd (executeOrder no_faults example_getMessage
                             \<lparr>observed = True, emitted = []\<rparr> example_db ''c3''))) ''c3'' =
       Some CREATED"
proof -
  let ?order = "\<lparr>uuid = ''c3'', status = CREATED, userId = 1\<rparr>"
  have lookup: "no_faults CallOrderFindByPk = None"
    by (simp add: no_faults_def)
  have found: "find (\<lambda>x. uuid x = ''c3'') (orders example_db) = Some ?order"
    by (simp add: example_db_def)
  have created: "status ?order = CREATED"
    by simp
  have closed: "\<not> observed \<lparr>observed = False, emitted = ([] :: (MessageType \<times> string \<times> OrderJSON) list)\<rparr>"
    by simp
  have opened: "observed \<lparr>observed = True, emitted = ([] :: (MessageType \<times> string \<times> OrderJSON) list)\<rparr>"
    by simp
  have sent: "\<lparr>observed = True, emitted = []\<rparr>
      \<lparr>emitted := emitted \<lparr>observed = True, emitted = []\<rparr> @
         [example_getMessage EXECUTE_ORDER ''c3'' (with_includes example_db ?order)]\<rparr> =
      \<lparr>observed = True, emitted = [(EXECUTE_ORDER, ''c3'', (?order, [], []))]\<rparr>"
    by (simp add: example_getMessage_def with_includes_def include_foods_def include_places_def
        example_db_def)
  from executeOrder_frame[where fl = no_faults and getMessage = example_getMessage
         and s = "\<lparr>observed = False, emitted = []\<rparr>" and d = example_db and u = "''c3''"
         and order = ?order]
       executeOrder_frame[where fl = no_faults and getMessage = example_getMessage
         and s = "\<lparr>observed = True, emitted = []\<rparr>" and d = example_db and u = "''c3''"
         and order = ?order]
       lookup found created closed opened
  have "executeOrder no_faults example_getMessage \<lparr>observed = False, emitted = []\<rparr> example_db ''c3'' =
       (Next (Err WS_NOT_AVAILABLE), \<lparr>observed = False, emitted = []\<rparr>, example_db)"
    and "executeOrder no_faults example_getMessage \<lparr>observed = True, emitted = []\<rparr> example_db ''c3'' =
       (Respond 200 (Message ''Order started succesfully''),
        \<lparr>observed = True, emitted = []\<rparr>
          \<lparr>emitted := emitted \<lparr>observed = True, emitted = []\<rparr> @
             [example_getMessage EXECUTE_ORDER ''c3'' (with_includes example_db ?order)]\<rparr>,
        example_db)"
    and "status_of (snd (snd (executeOrder no_faults example_getMessage
                             \<lparr>observed = True, emitted = []\<rparr> example_db ''c3''))) ''c3'' =
       Some CREATED"
    by blast+
  with lookup found sent show ?thesis
    by simp
qed

text \<open>
  The claim as it is worded promises \<open>WS_NOT_AVAILABLE\<close> whenever the stream has no
  subscriber. Here it has none; the order \<open>b2\<close> is running and the uuid \<open>zz\<close> is
  unknown, and the handler answers \<open>ORDER_ALREADY_STARTED\<close> and
  \<open>ORDER_NOT_FOUND\<close>.
\<close>

theorem executeOrder_no_subscriber_counterexample:
  "\<not> observed \<lparr>observed = False, emitted = ([] :: (MessageType \<times> string \<times> OrderJSON) list)\<rparr>
   \<and> executeOrder no_faults example_getMessage \<lparr>observed = False, emitted = []\<rparr> example_db ''b2'' =
       (Next (Err ORDER_ALREADY_STARTED), \<lparr>observed = False, emitted = []\<rparr>, example_db)
   \<and> executeOrder no_faults example_getMessage \<lparr>observed = False, emitted = []\<rparr> example_db ''zz'' =
       (Next (Err ORDER_NOT_FOUND), \<lparr>observed = False, emitted = []\<rparr>, example_db)"
  by (simp add: executeOrder_def Order_findByPk_def no_faults_def example_db_def)

text \<open>
  C10. \<open>updateOrderStatus\<close> needs the order to exist. For a uuid that no order has it
  throws: the lookup gives \<^verbatim>\<open>null\<close> and \<^verbatim>\<open>order!.update\<close> is a \<open>TypeError\<close>
  (or the lookup itself threw). For a uuid that an order has, and a storage that does
  not throw, it writes the given status over the old one, whatever the two are, and
  returns.
\<close>

theorem updateOrderStatus_requires_order:
  "(find (\<lambda>x. uuid x = u) (orders d) = None \<longrightarrow>
      (\<exists>e. updateOrderStatus fl d u st = Inl e)
      \<and> (fl CallOrderFindByPk = None \<longrightarrow> updateOrderStatus fl d u st = Inl TypeError))
   \<and> (find (\<lambda>x. uuid x = u) (orders d) \<noteq> None
        \<and> fl CallOrderFindByPk = None \<and> fl CallOrderUpdate = None \<longrightarrow>
      updateOrderStatus fl d u st =
        Inr (d\<lparr>orders := map (\<lambda>x. if uuid x = u then x\<lparr>status := st\<rparr> else x) (orders d)\<rparr>)
      \<and> status_of (d\<lparr>orders := map (\<lambda>x. if uuid x = u then x\<lparr>status := st\<rparr> else x) (orders d)\<rparr>) u
          = Some st)"
proof (intro conjI impI)
  assume missing: "find (\<lambda>x. uuid x = u) (orders d) = None"
  then show "\<exists>e. updateOrderStatus fl d u st = Inl e"
    by (simp add: updateOrderStatus_def Order_findByPk_def split: option.splits)
  show "updateOrderStatus fl d u st = Inl TypeError" if "fl CallOrderFindByPk = None"
    using that missing by (simp add: updateOrderStatus_def Order_findByPk_def)
next
  assume ok: "find (\<lambda>x. uuid x = u) (orders d) \<noteq> None
        \<and> fl CallOrderFindByPk = None \<and> fl CallOrderUpdate = None"
  then obtain order where order: "find (\<lambda>x. uuid x = u) (orders d) = Some order"
    by auto
  then have "uuid order = u"
    by (rule find_uuid_Some)
  with ok order show "updateOrderStatus fl d u st =
        Inr (d\<lparr>orders := map (\<lambda>x. if uuid x = u then x\<lparr>status := st\<rparr> else x) (orders d)\<rparr>)"
    by (simp add: updateOrderStatus_def Order_findByPk_def Order_update_def)
  from order \<open>uuid order = u\<close> show "status_of (d\<lparr>orders := map (\<lambda>x. if uuid x = u then x\<lparr>status := st\<rparr> else x)
                                             (orders d)\<rparr>) u = Some st"
    by (simp add: status_of_def find_update_status)
qed

theorem updateOrderStatus_requires_order_witness:
  "find (\<lambda>x. uuid x = ''zz'') (orders example_db) = None
   \<and> updateOrderStatus no_faults example_db ''zz'' RUNNING = Inl TypeError
   \<and> find (\<lambda>x. uuid x = ''b2'') (orders example_db) \<noteq> None
   \<and> updateOrderStatus no_faults example_db ''b2'' FAILED =
       Inr (example_db\<lparr>orders := [\<lparr>uuid = ''a1'', status = COMPLETED, userId = 1\<rparr>,
                                   \<lparr>uuid = ''b2'', status = FAILED, userId = 1\<rparr>,
                                   \<lparr>uuid = ''c3'', status = CREATED, userId = 1\<rparr>]\<rparr>)"
proof -
  have missing: "find (\<lambda>x. uuid x = ''zz'') (orders example_db) = None"
    by (simp add: example_db_def)
  have found: "find (\<lambda>x. uuid x = ''b2'') (orders example_db) \<noteq> None"
    by (simp add: example_db_def)
  have working: "no_faults CallOrderFindByPk = None" "no_faults CallOrderUpdate = None"
    by (simp_all add: no_faults_def)
  have written: "example_db\<lparr>orders := map (\<lambda>x. if uuid x = ''b2'' then x\<lparr>status := FAILED\<rparr> else x)
                                         (orders example_db)\<rparr> =
      example_db\<lparr>orders := [\<lparr>uuid = ''a1'', status = COMPLETED, userId = 1\<rparr>,
                             \<lparr>uuid = ''b2'', status = FAILED, userId = 1\<rparr>,
                             \<lparr>uuid = ''c3'', status = CREATED, userId = 1\<rparr>]\<rparr>"
    by (simp add: example_db_def)
  from updateOrderStatus_requires_order[of "''zz''" example_db no_faults RUNNING]
       updateOrderStatus_requires_order[of "''b2''" example_db no_faults FAILED]
       missing found working
  have "updateOrderStatus no_faults example_db ''zz'' RUNNING = Inl TypeError"
    and "updateOrderStatus no_faults example_db ''b2'' FAILED =
       Inr (example_db\<lparr>orders := map (\<lambda>x. if uuid x = ''b2'' then x\<lparr>status := FAILED\<rparr> else x)
                                       (orders example_db)\<rparr>)"
    by blast+
  with missing found written show ?thesis
    by simp
qed

section \<open>The lifecycle of an order\<close>

lemma advanced_refl: "advanced a a"
  by (simp add: advanced_def)

lemma forward_advanced: "forward a b \<Longrightarrow> advanced a b"
  by (simp add: advanced_def)

lemma advanced_trans: "advanced a b \<Longrightarrow> advanced b c \<Longrightarrow> advanced a c"
  by (cases a; cases b; cases c) (simp_all add: advanced_def)








text \<open>\<open>advanced\<close> is the lifecycle read as a path: any number of steps forward.\<close>

lemma advanced_iff_forward_steps: "advanced a b \<longleftrightarrow> forward\<^sup>*\<^sup>* a b"
proof
  assume "advanced a b"
  have one: "forward CREATED RUNNING" "forward RUNNING COMPLETED" "forward RUNNING FAILED"
    by simp_all
  from \<open>advanced a b\<close> consider "a = b" | "forward a b"
    | "a = CREATED" "b = COMPLETED" | "a = CREATED" "b = FAILED"
    by (auto simp: advanced_def)
  then show "forward\<^sup>*\<^sup>* a b"
  proof cases
    case 3
    with one show ?thesis by (meson rtranclp.rtrancl_into_rtrancl rtranclp.rtrancl_refl)
  next
    case 4
    with one show ?thesis by (meson rtranclp.rtrancl_into_rtrancl rtranclp.rtrancl_refl)
  qed auto
next
  assume "forward\<^sup>*\<^sup>* a b"
  then show "advanced a b"
    by (induction rule: rtranclp_induct)
       (auto intro: advanced_refl advanced_trans forward_advanced)
qed




end
